theory Spec2Isabelle
  imports Main
begin

unbundle bit_operations_syntax

section \<open>Errors\<close>

text \<open>
  The exceptions of \<^verbatim>\<open>errors.py\<close> and the Python built-in exceptions that the modelled
  code can raise.  \<^verbatim>\<open>CipServiceError\<close> carries its error code.
\<close>

datatype error =
    DevNetParsingError
  | DevNetPacketError
  | DevNetGroupError
  | CipServiceError int
  | CipNoResponseError
  | CipFragmentResponseError
  | CipFragmentMissing
  | KeyError
  | IndexError
  | TypeError
  | ValueError
  | UnicodeError

text \<open>Sequencing of computations that may raise: the first exception wins.\<close>

definition ebind :: "error + 'a \<Rightarrow> ('a \<Rightarrow> error + 'b) \<Rightarrow> error + 'b" where
  "ebind m f = (case m of Inl e \<Rightarrow> Inl e | Inr x \<Rightarrow> f x)"

text \<open>Python's \<^verbatim>\<open>x in range(lo, hi)\<close> on integers.\<close>

definition in_range :: "int \<Rightarrow> int \<Rightarrow> int \<Rightarrow> bool" where
  "in_range lo hi x \<longleftrightarrow> lo \<le> x \<and> x < hi"

section \<open>Address codec (\<^verbatim>\<open>network/addressing.py\<close>)\<close>

text \<open>
  \<^verbatim>\<open>can_addr(msg_group, msg_id, mac)\<close>: the chain of input checks, in the order of the
  source, then the identifier of the group.  Python's \<^verbatim>\<open><<\<close> is \<open>push_bit\<close>.
\<close>

definition can_addr :: "int \<Rightarrow> int \<Rightarrow> int \<Rightarrow> error + int" where
  "can_addr msg_group msg_id mac =
    (if \<not> in_range 1 5 msg_group then Inl DevNetGroupError
     else if msg_group = 1 \<and> \<not> in_range 0 16 msg_id then Inl DevNetGroupError
     else if msg_group = 2 \<and> \<not> in_range 0 8 msg_id then Inl DevNetGroupError
     else if msg_group = 3 \<and> \<not> in_range 0 7 msg_id then Inl DevNetGroupError
     else if \<not> in_range 0 64 msg_id then Inl DevNetGroupError
     else if \<not> in_range 0 64 mac then Inl DevNetGroupError
     else if msg_group = 1 then Inr (push_bit 6 msg_id + mac)
     else if msg_group = 2 then Inr (0x400 + push_bit 3 mac + msg_id)
     else if msg_group = 3 then Inr (0x600 + push_bit 6 msg_id + mac)
     else if msg_group = 4 then Inr (0x7C0 + msg_id)
     else Inl DevNetGroupError)"

text \<open>
  \<^verbatim>\<open>devnet_addr(can_id)\<close>: the group is found by membership in the four identifier
  ranges; an identifier in none of them keeps the initial values \<open>(0, 0, 0)\<close>.
  Python's \<^verbatim>\<open>>>\<close> is \<open>drop_bit\<close>.
\<close>

definition devnet_group :: "int \<Rightarrow> int" where
  "devnet_group can_id =
    (if in_range 0 0x400 can_id then 1
     else if in_range 0x400 0x600 can_id then 2
     else if in_range 0x600 0x7C0 can_id then 3
     else if in_range 0x7C0 0x7F0 can_id then 4
     else 0)"

definition devnet_addr :: "int \<Rightarrow> int \<times> int \<times> int" where
  "devnet_addr can_id =
    (let group_id = devnet_group can_id in
     if group_id = 1 then (group_id, drop_bit 6 (can_id AND 0x3C0), can_id AND 0x03F)
     else if group_id = 2 then (group_id, can_id AND 0x007, drop_bit 3 (can_id AND 0x1F8))
     else if group_id = 3 then (group_id, drop_bit 6 (can_id AND 0x1C0), can_id AND 0x03F)
     else if group_id = 4 then (group_id, can_id AND 0x03F, 0)
     else (group_id, 0, 0))"

text \<open>
  The valid addressing triples of the specification: group 1 to 4, the message
  identifier within the range declared for the group, the MAC within 0 to 63.
\<close>

definition valid_triple :: "int \<Rightarrow> int \<Rightarrow> int \<Rightarrow> bool" where
  "valid_triple g m a \<longleftrightarrow>
     ((g = 1 \<and> in_range 0 16 m) \<or> (g = 2 \<and> in_range 0 8 m) \<or>
      (g = 3 \<and> in_range 0 7 m) \<or> (g = 4 \<and> in_range 0 48 m)) \<and> in_range 0 64 a"

section \<open>Constants (\<^verbatim>\<open>definitions.py\<close>)\<close>

definition BITSTROBE_REQ :: int where "BITSTROBE_REQ = 0x00"
definition EXPLICIT_REQ :: int where "EXPLICIT_REQ = 0x04"
definition EXPLICIT_RSP :: int where "EXPLICIT_RSP = 0x03"
definition UNCONNECTED_RSP :: int where "UNCONNECTED_RSP = 0x03"
definition EXPLICIT_REQ_GROUP :: int where "EXPLICIT_REQ_GROUP = 2"

definition FRAG_START :: int where "FRAG_START = 0x00"
definition FRAG_MIDDLE :: int where "FRAG_MIDDLE = 0x01"
definition FRAG_FINAL :: int where "FRAG_FINAL = 0x02"
definition FRAG_ACK :: int where "FRAG_ACK = 0x03"
definition FRAGMENT_ENABLED :: int where "FRAGMENT_ENABLED = 1"
definition MAX_COUNT :: int where "MAX_COUNT = 0x3F"

definition SERVICE_ERROR :: int where "SERVICE_ERROR = 0x14"
definition LAST_VALID_CODE :: int where "LAST_VALID_CODE = 0x7F"
definition INVALID_REPLY_RECEIVED :: int where "INVALID_REPLY_RECEIVED = 0x22"

section \<open>Python lists\<close>

text \<open>\<^verbatim>\<open>xs[i]\<close> for a non-negative index raises \<^verbatim>\<open>IndexError\<close> out of range.\<close>

definition index :: "'a list \<Rightarrow> nat \<Rightarrow> error + 'a" where
  "index xs i = (if i < length xs then Inr (xs ! i) else Inl IndexError)"

text \<open>\<^verbatim>\<open>xs[lo:hi]\<close> for non-negative bounds never raises.\<close>

definition slice :: "'a list \<Rightarrow> nat \<Rightarrow> nat \<Rightarrow> 'a list" where
  "slice xs lo hi = take (hi - lo) (drop lo xs)"

text \<open>
  The handler \<^verbatim>\<open>except IndexError: raise DevNetParsingError(...)\<close> followed by
  \<^verbatim>\<open>except Exception: raise\<close>.
\<close>

definition index_error_is_parsing_error :: "error + 'a \<Rightarrow> error + 'a" where
  "index_error_is_parsing_error r =
     (case r of Inl IndexError \<Rightarrow> Inl DevNetParsingError | _ \<Rightarrow> r)"

text \<open>The handler \<^verbatim>\<open>except Exception: raise DevNetParsingError(...)\<close>.\<close>

definition any_error_is_parsing_error :: "error + 'a \<Rightarrow> error + 'a" where
  "any_error_is_parsing_error r = (case r of Inl e \<Rightarrow> Inl DevNetParsingError | _ \<Rightarrow> r)"

section \<open>CAN frames and packets (\<^verbatim>\<open>devicenet/packets.py\<close>)\<close>

text \<open>
  The frame of the CAN driver is the boundary type of the stack: an identifier and
  the payload.  The frame class itself is supplied by the driver; \<^verbatim>\<open>to_frame\<close> only
  passes it \<^verbatim>\<open>can_id\<close> and \<^verbatim>\<open>data\<close>.
\<close>

record can_frame =
  can_id :: int
  frame_data :: "int list"

text \<open>
  One record holds the attributes of the packet class hierarchy
  (\<^verbatim>\<open>DeviceNetPacket\<close>, \<^verbatim>\<open>ExplicitPacket\<close>, \<^verbatim>\<open>FragHeaderMixin\<close>,
  \<^verbatim>\<open>ExplicitServicePacket\<close>, \<^verbatim>\<open>ExplicitFragPacket\<close>, \<^verbatim>\<open>ExplicitFragAckPacket\<close>,
  \<^verbatim>\<open>IoPacket\<close>, \<^verbatim>\<open>IoFragPacket\<close>).  \<open>rr_flag\<close> is the attribute \<^verbatim>\<open>packet_type\<close>,
  which the property \<^verbatim>\<open>rr_flag\<close> reads and writes.
\<close>

record packet =
  group_id :: int
  message_id :: int
  src_mac :: int
  dst_mac :: int
  can_header :: int
  can_data :: "int list"
  data :: "int list"
  mac_in_can_id :: int
  mac_in_message :: int
  message_header :: int
  message_body :: "int list"
  xid :: int
  frag_flag :: int
  frag_type :: int
  frag_count :: int
  frag_header :: int
  rr_flag :: int
  service_header :: int
  service_code :: int
  class_id :: int
  instance_id :: int
  service_data :: "int list"
  ack_status :: int


subsection \<open>Constructors\<close>

text \<open>
  \<^verbatim>\<open>DeviceNetPacket.__init__\<close>.  For the explicit classes \<^verbatim>\<open>data\<close> is a property that
  stores into \<^verbatim>\<open>_data\<close> and \<^verbatim>\<open>_message_body\<close>; the constructor resets \<^verbatim>\<open>_message_body\<close>
  to the empty list afterwards, so the same initial state serves all classes.
\<close>

definition DeviceNetPacket :: "int \<Rightarrow> int \<Rightarrow> int \<Rightarrow> int \<Rightarrow> int list \<Rightarrow> packet" where
  "DeviceNetPacket g m s d dat =
     \<lparr> group_id = g, message_id = m, src_mac = s, dst_mac = d,
       can_header = 0, can_data = [], data = dat,
       mac_in_can_id = 0, mac_in_message = 0, message_header = 0, message_body = [],
       xid = 0, frag_flag = 0, frag_type = 0, frag_count = 0, frag_header = 0,
       rr_flag = 0, service_header = 0, service_code = 0, class_id = 0, instance_id = 0,
       service_data = [], ack_status = 0 \<rparr>"

text \<open>
  \<^verbatim>\<open>ExplicitServicePacket.__init__\<close>: no \<^verbatim>\<open>data\<close> reaches the base class; the
  fragment attributes are \<^verbatim>\<open>START\<close> and 0.
\<close>

definition ExplicitServicePacket ::
  "int \<Rightarrow> int \<Rightarrow> int \<Rightarrow> int \<Rightarrow> int \<Rightarrow> int \<Rightarrow> int \<Rightarrow> int \<Rightarrow> int list \<Rightarrow> packet" where
  "ExplicitServicePacket g m s d ptype code cls inst sdata =
     (DeviceNetPacket g m s d [])
       \<lparr> frag_type := FRAG_START, frag_count := 0, frag_header := 0,
         rr_flag := ptype, service_code := code, class_id := cls, instance_id := inst,
         service_data := sdata \<rparr>"

text \<open>\<^verbatim>\<open>ExplicitServicePacket()\<close> with the default arguments.\<close>

definition ExplicitServicePacket_default :: packet where
  "ExplicitServicePacket_default =
     ExplicitServicePacket EXPLICIT_REQ_GROUP EXPLICIT_REQ 0 0 0 0 0 0 []"

definition ExplicitFragPacket ::
  "int \<Rightarrow> int \<Rightarrow> int \<Rightarrow> int \<Rightarrow> int \<Rightarrow> int \<Rightarrow> int list \<Rightarrow> packet" where
  "ExplicitFragPacket g m s d fcount ftype dat =
     (DeviceNetPacket g m s d dat)
       \<lparr> frag_flag := 1, frag_type := ftype, frag_count := fcount, frag_header := 0 \<rparr>"

text \<open>\<^verbatim>\<open>ExplicitFragPacket()\<close> with the default arguments.\<close>

definition ExplicitFragPacket_default :: packet where
  "ExplicitFragPacket_default =
     ExplicitFragPacket EXPLICIT_REQ_GROUP EXPLICIT_REQ 0 0 0 FRAG_MIDDLE []"

definition ExplicitFragAckPacket ::
  "int \<Rightarrow> int \<Rightarrow> int \<Rightarrow> int \<Rightarrow> int \<Rightarrow> int \<Rightarrow> int \<Rightarrow> packet" where
  "ExplicitFragAckPacket g m s d fcount ftype status =
     (ExplicitFragPacket g m s d fcount ftype [status]) \<lparr> ack_status := status \<rparr>"

text \<open>\<^verbatim>\<open>ExplicitFragAckPacket()\<close> with the default arguments.\<close>

definition ExplicitFragAckPacket_default :: packet where
  "ExplicitFragAckPacket_default =
     ExplicitFragAckPacket EXPLICIT_REQ_GROUP EXPLICIT_REQ 0 0 0 FRAG_ACK 0"

definition IoPacket :: "int \<Rightarrow> int \<Rightarrow> int \<Rightarrow> int \<Rightarrow> int list \<Rightarrow> packet" where
  "IoPacket g m s d dat = DeviceNetPacket g m s d dat"

definition IoFragPacket ::
  "int \<Rightarrow> int \<Rightarrow> int \<Rightarrow> int \<Rightarrow> int \<Rightarrow> int \<Rightarrow> int list \<Rightarrow> packet" where
  "IoFragPacket g m s d fcount ftype dat =
     (IoPacket g m s d dat) \<lparr> frag_type := ftype, frag_count := fcount, frag_header := 0 \<rparr>"

text \<open>\<^verbatim>\<open>IoFragPacket()\<close> with the default arguments.\<close>

definition IoFragPacket_default :: packet where
  "IoFragPacket_default = IoFragPacket 0 0 0 0 0 0 []"

subsection \<open>Building\<close>

text \<open>
  \<^verbatim>\<open>build_can_header\<close>: no check is made here; a group outside 1 to 4 leaves the
  header as it is.
\<close>

definition build_can_header :: "packet \<Rightarrow> packet" where
  "build_can_header p =
     (if group_id p = 1 then
        (let p = p\<lparr>mac_in_can_id := src_mac p\<rparr> in
         p\<lparr>can_header := 0 + push_bit 6 (message_id p) + mac_in_can_id p\<rparr>)
      else if group_id p = 2 then
        (let p = (if message_id p \<in> {BITSTROBE_REQ, EXPLICIT_RSP, UNCONNECTED_RSP}
                  then p\<lparr>mac_in_can_id := src_mac p\<rparr>
                  else p\<lparr>mac_in_can_id := dst_mac p\<rparr>) in
         p\<lparr>can_header := 0x400 + push_bit 3 (mac_in_can_id p) + message_id p\<rparr>)
      else if group_id p = 3 then
        (let p = p\<lparr>mac_in_can_id := src_mac p\<rparr> in
         p\<lparr>can_header := 0x600 + push_bit 6 (message_id p) + mac_in_can_id p\<rparr>)
      else if group_id p = 4 then
        p\<lparr>can_header := 0x7C0 + message_id p\<rparr>
      else p)"

text \<open>The setter of \<^verbatim>\<open>message_header\<close> accepts the range of a byte.\<close>

definition set_message_header :: "packet \<Rightarrow> int \<Rightarrow> error + packet" where
  "set_message_header p v =
     (if \<not> (0 \<le> v \<and> v \<le> 0xFF) then Inl DevNetPacketError
      else Inr (p\<lparr>message_header := v\<rparr>))"

text \<open>\<^verbatim>\<open>generate_message_header\<close>: three assignments through the setter.\<close>

definition generate_message_header :: "packet \<Rightarrow> error + packet" where
  "generate_message_header p =
     ebind (set_message_header p (push_bit 7 (frag_flag p))) (\<lambda>p.
     ebind (set_message_header p (message_header p + push_bit 6 (xid p))) (\<lambda>p.
     set_message_header p (message_header p + mac_in_message p)))"

text \<open>
  The setters of \<^verbatim>\<open>data\<close> and \<^verbatim>\<open>message_body\<close> of \<^verbatim>\<open>ExplicitPacket\<close> store into both
  \<^verbatim>\<open>_data\<close> and \<^verbatim>\<open>_message_body\<close>.
\<close>

definition set_explicit_data :: "packet \<Rightarrow> int list \<Rightarrow> packet" where
  "set_explicit_data p v = p\<lparr>message_body := v, data := v\<rparr>"

text \<open>\<^verbatim>\<open>set_frag_header\<close> of the explicit classes.\<close>

definition set_frag_header :: "packet \<Rightarrow> packet" where
  "set_frag_header p = p\<lparr>frag_header := push_bit 6 (frag_type p) + frag_count p\<rparr>"

text \<open>\<^verbatim>\<open>set_message_data\<close> on an explicit packet.\<close>

definition set_message_data :: "packet \<Rightarrow> int list \<Rightarrow> packet" where
  "set_message_data p v = (set_explicit_data p v)\<lparr>can_data := v\<rparr>"

text \<open>\<^verbatim>\<open>ExplicitFragPacket.build\<close>.\<close>

definition frag_build :: "packet \<Rightarrow> error + packet" where
  "frag_build p =
     ebind (generate_message_header (build_can_header p)) (\<lambda>p.
     (let p = set_frag_header p;
          p = set_message_data p (data p)
      in Inr (p\<lparr>can_data := [message_header p, frag_header p] @ message_body p\<rparr>)))"

text \<open>\<^verbatim>\<open>to_frame\<close>: build again, then hand identifier and payload to the frame class.\<close>

definition to_frame :: "(packet \<Rightarrow> error + packet) \<Rightarrow> packet \<Rightarrow> error + can_frame" where
  "to_frame build p =
     ebind (build p) (\<lambda>p. Inr \<lparr> can_id = can_header p, frame_data = can_data p \<rparr>)"

















subsection \<open>Splitting into fragments\<close>







subsection \<open>Fragment header byte (\<^verbatim>\<open>FragHeaderMixin\<close>)\<close>

text \<open>
  \<^verbatim>\<open>get_frag_type\<close> and \<^verbatim>\<open>get_frag_count\<close> read the two fields of the fragment header
  byte: \<^verbatim>\<open>(frag_header & 0xC0) >> 6\<close> and \<^verbatim>\<open>frag_header & 0x3F\<close>.
\<close>

definition get_frag_type :: "int \<Rightarrow> int" where
  "get_frag_type h = drop_bit 6 (h AND 0xC0)"

definition get_frag_count :: "int \<Rightarrow> int" where
  "get_frag_count h = h AND 0x3F"

subsection \<open>Parsing\<close>

text \<open>
  \<^verbatim>\<open>parse_can_header\<close> and \<^verbatim>\<open>parse_can_data\<close>.  \<^verbatim>\<open>devnet_addr\<close> raises nothing on an
  integer, so the handler of \<^verbatim>\<open>parse_can_header\<close> is never entered.
\<close>

definition parse_can_header :: "packet \<Rightarrow> can_frame \<Rightarrow> error + packet" where
  "parse_can_header p frame =
     any_error_is_parsing_error
       (case devnet_addr (can_id frame) of
          (g, m, a) \<Rightarrow>
            Inr (p\<lparr>group_id := g, message_id := m, mac_in_can_id := a,
                   can_header := can_id frame\<rparr>))"

definition parse_can_data :: "packet \<Rightarrow> can_frame \<Rightarrow> packet" where
  "parse_can_data p frame = p\<lparr>can_data := frame_data frame\<rparr>"

text \<open>\<^verbatim>\<open>ExplicitPacket.parse_message_header\<close>.\<close>

definition parse_message_header :: "packet \<Rightarrow> can_frame \<Rightarrow> nat \<Rightarrow> error + packet" where
  "parse_message_header p frame offset =
     index_error_is_parsing_error
       (ebind (index (frame_data frame) offset) (\<lambda>b.
        Inr (p\<lparr>frag_flag := drop_bit 7 (b AND 0x80),
               xid := drop_bit 6 (b AND 0x40),
               mac_in_message := b AND 0x3F\<rparr>)))"

text \<open>\<^verbatim>\<open>ExplicitPacket.parse_message_body\<close>: a slice, which cannot raise.\<close>

definition explicit_parse_message_body :: "packet \<Rightarrow> can_frame \<Rightarrow> nat \<Rightarrow> error + packet" where
  "explicit_parse_message_body p frame offset =
     index_error_is_parsing_error
       (Inr (set_explicit_data p (slice (frame_data frame) offset 8)))"

text \<open>
  \<^verbatim>\<open>get_frag_header\<close>: the header byte is \<^verbatim>\<open>can_data[1]\<close> for the explicit classes and
  \<^verbatim>\<open>can_data[0]\<close> for \<^verbatim>\<open>IoFragPacket\<close>.
\<close>

definition get_frag_header :: "nat \<Rightarrow> packet \<Rightarrow> error + packet" where
  "get_frag_header pos p =
     index_error_is_parsing_error
       (ebind (index (can_data p) pos) (\<lambda>h.
        (let p = p\<lparr>frag_header := h\<rparr>;
             p = p\<lparr>frag_type := get_frag_type (frag_header p)\<rparr>;
             p = p\<lparr>frag_count := get_frag_count (frag_header p)\<rparr>
         in Inr p)))"

text \<open>\<^verbatim>\<open>ExplicitFragPacket.from_frame\<close>.\<close>

definition explicit_frag_from_frame :: "packet \<Rightarrow> can_frame \<Rightarrow> error + packet" where
  "explicit_frag_from_frame p frame =
     ebind (parse_can_header p frame) (\<lambda>p.
     ebind (parse_message_header (parse_can_data p frame) frame 0) (\<lambda>p.
     ebind (get_frag_header 1 p) (\<lambda>p.
     explicit_parse_message_body p frame 2)))"

text \<open>
  \<^verbatim>\<open>ExplicitFragAckPacket.validate\<close> and \<^verbatim>\<open>from_frame\<close>.  Parsing stores the bytes after
  the fragment header in \<^verbatim>\<open>message_body\<close>; nothing assigns \<^verbatim>\<open>_ack_status\<close>, which keeps
  the value given to the constructor.
\<close>

definition ack_validate :: "packet \<Rightarrow> error + packet" where
  "ack_validate p =
     (if frag_type p \<noteq> FRAG_ACK then Inl DevNetParsingError
      else if ack_status p = 0x01 then Inl DevNetParsingError
      else if in_range 0x02 0x100 (ack_status p) then Inl DevNetParsingError
      else Inr p)"

definition ack_from_frame :: "packet \<Rightarrow> can_frame \<Rightarrow> error + packet" where
  "ack_from_frame p frame = ebind (explicit_frag_from_frame p frame) ack_validate"

text \<open>The getters of \<^verbatim>\<open>DeviceNetPacket\<close>.\<close>

definition get_group_id :: "packet \<Rightarrow> packet" where
  "get_group_id p = p\<lparr>group_id := fst (devnet_addr (can_header p))\<rparr>"

definition get_message_id :: "packet \<Rightarrow> packet" where
  "get_message_id p = p\<lparr>message_id := fst (snd (devnet_addr (can_header p)))\<rparr>"

definition get_src_mac :: "packet \<Rightarrow> error + packet" where
  "get_src_mac p =
     (case devnet_addr (can_header p) of
        (g, m, a) \<Rightarrow>
          (let p = p\<lparr>group_id := g, message_id := m, mac_in_can_id := a\<rparr> in
           if group_id p \<in> {1, 3} then Inr (p\<lparr>src_mac := mac_in_can_id p\<rparr>)
           else if group_id p = 2 then
             (if message_id p \<in> {BITSTROBE_REQ, EXPLICIT_RSP, UNCONNECTED_RSP}
              then Inr (p\<lparr>src_mac := mac_in_can_id p\<rparr>)
              else Inr (p\<lparr>src_mac := mac_in_message p\<rparr>))
           else Inl DevNetPacketError))"

text \<open>In group 2 the second branch of \<^verbatim>\<open>get_dst_mac\<close> assigns \<^verbatim>\<open>src_mac\<close>, as the source does.\<close>

definition get_dst_mac :: "packet \<Rightarrow> error + packet" where
  "get_dst_mac p =
     (case devnet_addr (can_header p) of
        (g, m, a) \<Rightarrow>
          (let p = p\<lparr>group_id := g, message_id := m, mac_in_can_id := a\<rparr> in
           if group_id p \<in> {1, 3} then Inr (p\<lparr>dst_mac := mac_in_message p\<rparr>)
           else if group_id p = 2 then
             (if message_id p \<notin> {BITSTROBE_REQ, EXPLICIT_RSP, UNCONNECTED_RSP}
              then Inr (p\<lparr>dst_mac := mac_in_can_id p\<rparr>)
              else Inr (p\<lparr>src_mac := mac_in_message p\<rparr>))
           else Inl DevNetPacketError))"

text \<open>
  \<^verbatim>\<open>DeviceNetPacket.from_frame\<close> on an explicit packet: the inherited \<^verbatim>\<open>parse\<close>, whose
  \<^verbatim>\<open>get_message_data\<close> goes through the \<^verbatim>\<open>data\<close> setter of \<^verbatim>\<open>ExplicitPacket\<close>; every
  exception becomes \<^verbatim>\<open>DevNetParsingError\<close>.
\<close>

definition devicenet_from_frame :: "packet \<Rightarrow> can_frame \<Rightarrow> error + packet" where
  "devicenet_from_frame p frame =
     any_error_is_parsing_error
       (let p = p\<lparr>can_header := can_id frame, can_data := frame_data frame\<rparr> in
        ebind (get_src_mac (get_message_id (get_group_id p))) (\<lambda>p.
        ebind (get_dst_mac p) (\<lambda>p.
        Inr (set_explicit_data p (can_data p)))))"

text \<open>The validating setters of \<^verbatim>\<open>ExplicitServicePacket\<close>.\<close>

definition set_rr_flag :: "packet \<Rightarrow> int \<Rightarrow> error + packet" where
  "set_rr_flag p v =
     (if \<not> (0 \<le> v \<and> v \<le> 1) then Inl DevNetPacketError else Inr (p\<lparr>rr_flag := v\<rparr>))"

definition set_service_code :: "packet \<Rightarrow> int \<Rightarrow> error + packet" where
  "set_service_code p v =
     (if \<not> (0 \<le> v \<and> v \<le> 0x7F) then Inl DevNetPacketError
      else Inr (p\<lparr>service_code := v\<rparr>))"

definition set_class_id :: "packet \<Rightarrow> int \<Rightarrow> error + packet" where
  "set_class_id p v =
     (if \<not> (0 \<le> v \<and> v \<le> 0xFFFF) then Inl DevNetPacketError
      else Inr (p\<lparr>class_id := v\<rparr>))"

definition set_instance_id :: "packet \<Rightarrow> int \<Rightarrow> error + packet" where
  "set_instance_id p v =
     (if \<not> (0 \<le> v \<and> v \<le> 0xFFFF) then Inl DevNetPacketError
      else Inr (p\<lparr>instance_id := v\<rparr>))"

text \<open>\<^verbatim>\<open>ExplicitServicePacket.parse_message_body\<close>.\<close>

definition service_parse_message_body :: "packet \<Rightarrow> can_frame \<Rightarrow> nat \<Rightarrow> error + packet" where
  "service_parse_message_body p frame offset =
     index_error_is_parsing_error
       (let p = set_explicit_data p (slice (frame_data frame) offset 8) in
        ebind (index (message_body p) 0) (\<lambda>b0.
        ebind (set_rr_flag p (drop_bit 7 (b0 AND 0x80))) (\<lambda>p.
        ebind (set_service_code p (b0 AND 0x7F)) (\<lambda>p.
        if rr_flag p = 0 then
          (let p = p\<lparr>src_mac := mac_in_message p\<rparr>;
               p = p\<lparr>dst_mac := mac_in_can_id p\<rparr> in
           ebind (index (message_body p) 1) (\<lambda>b1.
           ebind (set_class_id p b1) (\<lambda>p.
           ebind (index (message_body p) 2) (\<lambda>b2.
           ebind (set_instance_id p b2) (\<lambda>p.
           Inr (p\<lparr>service_data := slice (message_body p) 3 8\<rparr>))))))
        else
          (let p = p\<lparr>src_mac := mac_in_can_id p\<rparr>;
               p = p\<lparr>dst_mac := mac_in_message p\<rparr>
           in Inr (p\<lparr>service_data := slice (message_body p) 1 8\<rparr>))))))"

text \<open>
  \<^verbatim>\<open>ExplicitServicePacket.from_frame\<close>.  The call of the parent's \<^verbatim>\<open>from_frame\<close> runs
  \<^verbatim>\<open>DeviceNetPacket.from_frame\<close>, the message header and, by dynamic dispatch, this
  class's \<^verbatim>\<open>parse_message_body\<close> at offset 1; then the header is parsed again and the
  body at the offset the fragmentation flag selects.
\<close>

definition service_from_frame :: "packet \<Rightarrow> can_frame \<Rightarrow> error + packet" where
  "service_from_frame p frame =
     ebind (devicenet_from_frame p frame) (\<lambda>p.
     ebind (parse_message_header p frame 0) (\<lambda>p.
     ebind (service_parse_message_body p frame 1) (\<lambda>p.
     ebind (parse_message_header p frame 0) (\<lambda>p.
     if frag_flag p \<noteq> 0 then
       ebind (get_frag_header 1 p) (\<lambda>p. service_parse_message_body p frame 2)
     else service_parse_message_body p frame 1))))"

text \<open>\<^verbatim>\<open>IoFragPacket.from_frame\<close> with its own \<^verbatim>\<open>parse\<close>; no handler surrounds it.\<close>

definition iofrag_from_frame :: "packet \<Rightarrow> can_frame \<Rightarrow> error + packet" where
  "iofrag_from_frame p frame =
     (let p = p\<lparr>can_header := can_id frame, can_data := frame_data frame\<rparr> in
      ebind (get_src_mac (get_message_id (get_group_id p))) (\<lambda>p.
      ebind (get_dst_mac p) (\<lambda>p.
      ebind (get_frag_header 0 p) (\<lambda>p.
      Inr (p\<lparr>data := drop 1 (can_data p)\<rparr>)))))"

section \<open>Messaging layer (\<^verbatim>\<open>devicenet/link.py\<close>)\<close>

text \<open>
  The CAN interface is modelled by two lists: the results of the calls of \<^verbatim>\<open>recv\<close>
  still to come (\<open>None\<close> is a timeout, and every call after the last element times
  out), and the frames sent so far.  Each iteration of the receive loops consumes one
  result, so the loops are recursions on the first list.
\<close>

type_synonym rx_queue = "can_frame option list"
type_synonym tx_log = "can_frame list"

definition send :: "tx_log \<Rightarrow> can_frame \<Rightarrow> tx_log" where
  "send tx frame = tx @ [frame]"

text \<open>The helper predicates at the end of \<^verbatim>\<open>link.py\<close>.\<close>

definition is_fragmented :: "packet \<Rightarrow> bool" where
  "is_fragmented response \<longleftrightarrow> frag_flag response = FRAGMENT_ENABLED"

definition is_one_fragment :: "packet \<Rightarrow> bool" where
  "is_one_fragment response \<longleftrightarrow>
     frag_type response = FRAG_START \<and> frag_count response = MAX_COUNT"

definition is_start_fragment :: "packet \<Rightarrow> bool" where
  "is_start_fragment response \<longleftrightarrow>
     frag_type response = FRAG_START \<and> frag_count response = 0x00"

definition is_final_fragment :: "packet \<Rightarrow> bool" where
  "is_final_fragment response \<longleftrightarrow>
     frag_type response = FRAG_FINAL \<or> frag_count response = MAX_COUNT"

definition is_bad_service :: "int \<Rightarrow> bool" where
  "is_bad_service code \<longleftrightarrow> code > LAST_VALID_CODE"

definition is_error :: "packet \<Rightarrow> bool" where
  "is_error response \<longleftrightarrow> service_code response = SERVICE_ERROR"

text \<open>
  Raising \<^verbatim>\<open>CipServiceError(code)\<close>: the constructor looks the code up in \<^verbatim>\<open>ERROR.TAG\<close>,
  whose integer keys are \<open>0x00\<close> to \<open>0x2E\<close>; any other code makes the construction
  itself fail with \<^verbatim>\<open>KeyError\<close>.
\<close>

definition raise_CipServiceError :: "int \<Rightarrow> error" where
  "raise_CipServiceError code =
     (if 0x00 \<le> code \<and> code \<le> 0x2E then CipServiceError code else KeyError)"

text \<open>
  \<^verbatim>\<open>ack_fragment\<close> with its defaults \<^verbatim>\<open>frag_status=0\<close> and \<^verbatim>\<open>frag_type=3\<close>; the packet
  takes the default group 2 and message identifier 4.
\<close>

definition ack_fragment :: "tx_log \<Rightarrow> int \<Rightarrow> int \<Rightarrow> int \<Rightarrow> error + tx_log" where
  "ack_fragment tx src_addr dst_addr count =
     ebind (frag_build (ExplicitFragAckPacket EXPLICIT_REQ_GROUP EXPLICIT_REQ
                          src_addr dst_addr count 3 0)) (\<lambda>acknowledge.
     ebind (to_frame frag_build acknowledge) (\<lambda>msg_out.
     Inr (send tx msg_out)))"

text \<open>
  The body of the loop of \<^verbatim>\<open>read_fragment\<close> after a fragment has been parsed: the
  state is the stream, the previous counter and the frames sent.
\<close>

definition read_fragment_step ::
  "bool \<Rightarrow> int \<Rightarrow> int \<Rightarrow> packet \<Rightarrow> int list \<times> int \<times> tx_log
     \<Rightarrow> error + (int list \<times> int \<times> tx_log)" where
  "read_fragment_step explicit src_addr dst_addr response st =
     (case st of (stream, prev_counter, tx) \<Rightarrow>
       (let counter_diff = frag_count response - prev_counter in
        if counter_diff = 0 then
          (if explicit then
             ebind (ack_fragment tx src_addr dst_addr (frag_count response)) (\<lambda>tx.
             Inr (stream, prev_counter, tx))
           else Inr (stream @ data response, prev_counter, tx))
        else if counter_diff = 1 then
          (let stream = stream @ data response in
           ebind (if explicit then ack_fragment tx src_addr dst_addr (frag_count response)
                  else Inr tx) (\<lambda>tx.
           Inr (stream, frag_count response, tx)))
        else Inr (stream, prev_counter, tx)))"

fun read_fragment_loop ::
  "bool \<Rightarrow> int \<Rightarrow> int \<Rightarrow> int list \<Rightarrow> int \<Rightarrow> rx_queue \<Rightarrow> tx_log
     \<Rightarrow> (error + int list) \<times> rx_queue \<times> tx_log" where
  "read_fragment_loop explicit src_addr dst_addr stream prev_counter [] tx =
     (Inr stream, [], tx)"
| "read_fragment_loop explicit src_addr dst_addr stream prev_counter (None # rx) tx =
     (Inr stream, rx, tx)"
| "read_fragment_loop explicit src_addr dst_addr stream prev_counter (Some msg_in # rx) tx =
     (case (if explicit then explicit_frag_from_frame ExplicitFragPacket_default msg_in
            else iofrag_from_frame IoFragPacket_default msg_in) of
        Inl e \<Rightarrow> (Inl e, rx, tx)
      | Inr response \<Rightarrow>
          (case read_fragment_step explicit src_addr dst_addr response
                  (stream, prev_counter, tx) of
             Inl e \<Rightarrow> (Inl e, rx, tx)
           | Inr (stream, prev_counter, tx) \<Rightarrow>
               if is_final_fragment response then (Inr stream, rx, tx)
               else read_fragment_loop explicit src_addr dst_addr stream prev_counter rx tx))"

text \<open>\<^verbatim>\<open>read_fragment\<close> returns \<^verbatim>\<open>None\<close> for an empty stream.\<close>

definition read_fragment ::
  "bool \<Rightarrow> int \<Rightarrow> int \<Rightarrow> rx_queue \<Rightarrow> tx_log
     \<Rightarrow> (error + int list option) \<times> rx_queue \<times> tx_log" where
  "read_fragment explicit src_addr dst_addr rx tx =
     (case read_fragment_loop explicit src_addr dst_addr [] 0 rx tx of
        (Inl e, rx, tx) \<Rightarrow> (Inl e, rx, tx)
      | (Inr stream, rx, tx) \<Rightarrow>
          (Inr (if stream \<noteq> [] then Some stream else None), rx, tx))"

text \<open>
  \<^verbatim>\<open>wait_response\<close>.  Extending the result with the \<^verbatim>\<open>None\<close> of an empty reassembly
  raises \<^verbatim>\<open>TypeError\<close>.
\<close>

fun wait_response ::
  "int \<Rightarrow> int \<Rightarrow> int \<Rightarrow> rx_queue \<Rightarrow> tx_log \<Rightarrow> (error + int list) \<times> rx_queue \<times> tx_log" where
  "wait_response src_addr dst_addr code [] tx = (Inl CipNoResponseError, [], tx)"
| "wait_response src_addr dst_addr code (None # rx) tx = (Inl CipNoResponseError, rx, tx)"
| "wait_response src_addr dst_addr code (Some msg_in # rx) tx =
     (case service_from_frame ExplicitServicePacket_default msg_in of
        Inl e \<Rightarrow> (Inl e, rx, tx)
      | Inr response \<Rightarrow>
          if service_code response = code then
            (if \<not> is_fragmented response then (Inr (service_data response), rx, tx)
             else if is_one_fragment response then (Inr (service_data response), rx, tx)
             else if is_start_fragment response then
               (case ack_fragment tx src_addr dst_addr 0x00 of
                  Inl e \<Rightarrow> (Inl e, rx, tx)
                | Inr tx \<Rightarrow>
                    (case read_fragment True src_addr dst_addr rx tx of
                       (Inl e, rx, tx) \<Rightarrow> (Inl e, rx, tx)
                     | (Inr None, rx, tx) \<Rightarrow> (Inl TypeError, rx, tx)
                     | (Inr (Some fragments), rx, tx) \<Rightarrow>
                         (Inr ([] @ service_data response @ fragments), rx, tx)))
             else wait_response src_addr dst_addr code rx tx)
          else if is_bad_service code \<and> \<not> is_error response then
            (Inl (raise_CipServiceError INVALID_REPLY_RECEIVED), rx, tx)
          else if is_error response then
            (case index (service_data response) 0 of
               Inl e \<Rightarrow> (Inl e, rx, tx)
             | Inr err \<Rightarrow> (Inl (raise_CipServiceError err), rx, tx))
          else wait_response src_addr dst_addr code rx tx)"

text \<open>\<^verbatim>\<open>wait_fragment_ack\<close>: the loop \<^verbatim>\<open>for i in range(2)\<close>, then the final check.\<close>

fun wait_fragment_ack_loop :: "nat \<Rightarrow> rx_queue \<Rightarrow> (error + unit) \<times> rx_queue" where
  "wait_fragment_ack_loop 0 rx = (Inl CipNoResponseError, rx)"
| "wait_fragment_ack_loop (Suc n) [] = wait_fragment_ack_loop n []"
| "wait_fragment_ack_loop (Suc n) (None # rx) = wait_fragment_ack_loop n rx"
| "wait_fragment_ack_loop (Suc n) (Some msg_in # rx) =
     (case ack_from_frame ExplicitFragAckPacket_default msg_in of
        Inl e \<Rightarrow> (Inl e, rx)
      | Inr response \<Rightarrow>
          if ack_status response \<noteq> 0 then (Inl CipFragmentResponseError, rx)
          else (Inr (), rx))"

definition wait_fragment_ack :: "rx_queue \<Rightarrow> (error + unit) \<times> rx_queue" where
  "wait_fragment_ack rx = wait_fragment_ack_loop 2 rx"

section \<open>String codec (\<^verbatim>\<open>convert.py\<close>)\<close>

text \<open>
  A Python string is modelled as the list of its code points.  The codec \<^verbatim>\<open>'utf-8'\<close>
  of Python is the strict UTF-8 of RFC 3629: one to four bytes per code point, no
  surrogates, nothing above \<open>0x10FFFF\<close>; the decoder rejects continuation bytes out
  of place, truncated sequences, overlong forms, surrogates and values above
  \<open>0x10FFFF\<close>.
\<close>

definition utf8_encode_char :: "nat \<Rightarrow> error + nat list" where
  "utf8_encode_char c =
     (if c < 0x80 then Inr [c]
      else if c < 0x800 then Inr [0xC0 + c div 64, 0x80 + c mod 64]
      else if c < 0x10000 then
        (if 0xD800 \<le> c \<and> c \<le> 0xDFFF then Inl UnicodeError
         else Inr [0xE0 + c div 4096, 0x80 + (c div 64) mod 64, 0x80 + c mod 64])
      else if c < 0x110000 then
        Inr [0xF0 + c div 262144, 0x80 + (c div 4096) mod 64, 0x80 + (c div 64) mod 64,
             0x80 + c mod 64]
      else Inl UnicodeError)"

fun utf8_encode :: "nat list \<Rightarrow> error + nat list" where
  "utf8_encode [] = Inr []"
| "utf8_encode (c # cs) =
     ebind (utf8_encode_char c) (\<lambda>bs. ebind (utf8_encode cs) (\<lambda>rest. Inr (bs @ rest)))"

definition is_continuation :: "nat \<Rightarrow> bool" where
  "is_continuation b \<longleftrightarrow> 0x80 \<le> b \<and> b < 0xC0"

fun utf8_decode :: "nat list \<Rightarrow> error + nat list" where
  "utf8_decode [] = Inr []"
| "utf8_decode (b # bs) =
     (if b < 0x80 then ebind (utf8_decode bs) (\<lambda>cs. Inr (b # cs))
      else if 0xC0 \<le> b \<and> b < 0xE0 then
        (case bs of
           b1 # rest \<Rightarrow>
             (let c = (b - 0xC0) * 64 + (b1 - 0x80) in
              if is_continuation b1 \<and> 0x80 \<le> c
              then ebind (utf8_decode rest) (\<lambda>cs. Inr (c # cs))
              else Inl UnicodeError)
         | _ \<Rightarrow> Inl UnicodeError)
      else if 0xE0 \<le> b \<and> b < 0xF0 then
        (case bs of
           b1 # b2 # rest \<Rightarrow>
             (let c = (b - 0xE0) * 4096 + (b1 - 0x80) * 64 + (b2 - 0x80) in
              if is_continuation b1 \<and> is_continuation b2 \<and> 0x800 \<le> c
                 \<and> \<not> (0xD800 \<le> c \<and> c \<le> 0xDFFF)
              then ebind (utf8_decode rest) (\<lambda>cs. Inr (c # cs))
              else Inl UnicodeError)
         | _ \<Rightarrow> Inl UnicodeError)
      else if 0xF0 \<le> b \<and> b < 0xF8 then
        (case bs of
           b1 # b2 # b3 # rest \<Rightarrow>
             (let c = (b - 0xF0) * 262144 + (b1 - 0x80) * 4096 + (b2 - 0x80) * 64
                        + (b3 - 0x80) in
              if is_continuation b1 \<and> is_continuation b2 \<and> is_continuation b3
                 \<and> 0x10000 \<le> c \<and> c < 0x110000
              then ebind (utf8_decode rest) (\<lambda>cs. Inr (c # cs))
              else Inl UnicodeError)
         | _ \<Rightarrow> Inl UnicodeError)
      else Inl UnicodeError)"

text \<open>\<^verbatim>\<open>bytearray(stream)\<close> on a list of integers raises \<^verbatim>\<open>ValueError\<close> outside 0 to 255.\<close>

definition bytearray :: "nat list \<Rightarrow> error + nat list" where
  "bytearray xs = (if \<forall>x \<in> set xs. x < 256 then Inr xs else Inl ValueError)"

text \<open>\<^verbatim>\<open>result.rstrip("\u0000")\<close>.\<close>

definition rstrip_nul :: "nat list \<Rightarrow> nat list" where
  "rstrip_nul s = rev (dropWhile (\<lambda>c. c = 0) (rev s))"

text \<open>
  \<^verbatim>\<open>string_to_bytes\<close>: the length inserted in front is the length of the whole
  encoding, taken before the list is cut to 255 elements.
\<close>

definition string_to_bytes :: "nat list \<Rightarrow> error + nat list" where
  "string_to_bytes v =
     ebind (utf8_encode v) (\<lambda>stream.
     (let len = length stream;
          stream = len # stream
      in Inr (if length stream > 255 then take 255 stream else stream)))"

text \<open>\<^verbatim>\<open>bytes_to_string\<close>: \<^verbatim>\<open>stream.pop(0)\<close> raises \<^verbatim>\<open>IndexError\<close> on an empty list.\<close>

definition bytes_to_string :: "nat list \<Rightarrow> error + nat list" where
  "bytes_to_string stream =
     (case stream of
        [] \<Rightarrow> Inl IndexError
      | len # stream \<Rightarrow>
          ebind (bytearray (take len stream)) (\<lambda>bs.
          ebind (utf8_decode bs) (\<lambda>result.
          Inr (rstrip_nul result))))"

section \<open>Vocabulary of the statements\<close>






section \<open>Unfolding the constants\<close>

lemmas const_defs = BITSTROBE_REQ_def EXPLICIT_REQ_def EXPLICIT_RSP_def UNCONNECTED_RSP_def
  EXPLICIT_REQ_GROUP_def FRAG_START_def FRAG_MIDDLE_def FRAG_FINAL_def FRAG_ACK_def
  FRAGMENT_ENABLED_def MAX_COUNT_def SERVICE_ERROR_def LAST_VALID_CODE_def
  INVALID_REPLY_RECEIVED_def

section \<open>Bit masks as arithmetic\<close>

lemma and_low_bits: "(c::int) AND (2 ^ n - 1) = c mod 2 ^ n"
  by (metis mask_eq_exp_minus_1 take_bit_eq_mask take_bit_eq_mod)

lemma and_3F: "(c::int) AND 0x3F = c mod 64"
  using and_low_bits [of c 6] by simp

lemma and_07: "(c::int) AND 0x07 = c mod 8"
  using and_low_bits [of c 3] by simp

lemma shr_and_3C0: "drop_bit 6 ((c::int) AND 0x3C0) = (c div 64) mod 16"
proof -
  have "drop_bit 6 (c AND 0x3C0) = drop_bit 6 c AND drop_bit 6 (0x3C0::int)"
    by (rule drop_bit_and)
  also have "drop_bit 6 (0x3C0::int) = 2 ^ 4 - 1"
    by (simp add: drop_bit_eq_div)
  also have "drop_bit 6 c AND (2 ^ 4 - 1) = drop_bit 6 c mod 2 ^ 4"
    by (rule and_low_bits)
  finally show ?thesis by (simp add: drop_bit_eq_div)
qed

lemma shr_and_1F8: "drop_bit 3 ((c::int) AND 0x1F8) = (c div 8) mod 64"
proof -
  have "drop_bit 3 (c AND 0x1F8) = drop_bit 3 c AND drop_bit 3 (0x1F8::int)"
    by (rule drop_bit_and)
  also have "drop_bit 3 (0x1F8::int) = 2 ^ 6 - 1"
    by (simp add: drop_bit_eq_div)
  also have "drop_bit 3 c AND (2 ^ 6 - 1) = drop_bit 3 c mod 2 ^ 6"
    by (rule and_low_bits)
  finally show ?thesis by (simp add: drop_bit_eq_div)
qed

lemma shr_and_1C0: "drop_bit 6 ((c::int) AND 0x1C0) = (c div 64) mod 8"
proof -
  have "drop_bit 6 (c AND 0x1C0) = drop_bit 6 c AND drop_bit 6 (0x1C0::int)"
    by (rule drop_bit_and)
  also have "drop_bit 6 (0x1C0::int) = 2 ^ 3 - 1"
    by (simp add: drop_bit_eq_div)
  also have "drop_bit 6 c AND (2 ^ 3 - 1) = drop_bit 6 c mod 2 ^ 3"
    by (rule and_low_bits)
  finally show ?thesis by (simp add: drop_bit_eq_div)
qed

lemmas mask_arith = and_3F and_07 shr_and_3C0 shr_and_1F8 shr_and_1C0

section \<open>Decoding an encoded identifier\<close>

lemma devnet_addr_arith:
  "devnet_addr c =
    (let g = devnet_group c in
     if g = 1 then (g, (c div 64) mod 16, c mod 64)
     else if g = 2 then (g, c mod 8, (c div 8) mod 64)
     else if g = 3 then (g, (c div 64) mod 8, c mod 64)
     else if g = 4 then (g, c mod 64, 0)
     else (g, 0, 0))"
  unfolding devnet_addr_def mask_arith ..

lemma split_div: "0 \<le> r \<Longrightarrow> r < k \<Longrightarrow> (q * k + r) div k = (q::int)"
  by simp

lemma split_mod: "0 \<le> r \<Longrightarrow> r < k \<Longrightarrow> (q * k + r) mod k = (r::int)"
  by simp

lemma devnet_addr_group1:
  assumes "0 \<le> m" "m < 16" "0 \<le> a" "a < 64"
  shows "devnet_addr (push_bit 6 m + a) = (1, m, a)"
proof -
  have c: "push_bit 6 m + a = m * 64 + a" by (simp add: push_bit_eq_mult)
  have g: "devnet_group (m * 64 + a) = 1"
    using assms by (simp add: devnet_group_def in_range_def)
  have d: "(m * 64 + a) div 64 = m" using assms by (intro split_div)
  have e: "m mod 16 = m" using assms by simp
  have r: "(m * 64 + a) mod 64 = a" using assms by (intro split_mod)
  show ?thesis unfolding c devnet_addr_arith g Let_def d e r by simp
qed

lemma devnet_addr_group2:
  assumes "0 \<le> m" "m < 8" "0 \<le> a" "a < 64"
  shows "devnet_addr (0x400 + push_bit 3 a + m) = (2, m, a)"
proof -
  have c: "0x400 + push_bit 3 a + m = (2 * 64 + a) * 8 + m" by (simp add: push_bit_eq_mult)
  have g: "devnet_group ((2 * 64 + a) * 8 + m) = 2"
    using assms by (simp add: devnet_group_def in_range_def)
  have d: "((2 * 64 + a) * 8 + m) div 8 = 2 * 64 + a" using assms by (intro split_div)
  have e: "(2 * 64 + a) mod 64 = a" using assms by (intro split_mod)
  have r: "((2 * 64 + a) * 8 + m) mod 8 = m" using assms by (intro split_mod)
  show ?thesis unfolding c devnet_addr_arith g Let_def d e r by simp
qed

lemma devnet_addr_group3:
  assumes "0 \<le> m" "m < 7" "0 \<le> a" "a < 64"
  shows "devnet_addr (0x600 + push_bit 6 m + a) = (3, m, a)"
proof -
  have c: "0x600 + push_bit 6 m + a = (3 * 8 + m) * 64 + a" by (simp add: push_bit_eq_mult)
  have g: "devnet_group ((3 * 8 + m) * 64 + a) = 3"
    using assms by (simp add: devnet_group_def in_range_def)
  have d: "((3 * 8 + m) * 64 + a) div 64 = 3 * 8 + m" using assms by (intro split_div)
  have e: "(3 * 8 + m) mod 8 = m" using assms by (intro split_mod) simp_all
  have r: "((3 * 8 + m) * 64 + a) mod 64 = a" using assms by (intro split_mod)
  show ?thesis unfolding c devnet_addr_arith g Let_def d e r by simp
qed

lemma devnet_addr_group4:
  assumes "0 \<le> m" "m < 48"
  shows "devnet_addr (0x7C0 + m) = (4, m, 0)"
proof -
  have c: "0x7C0 + m = 31 * 64 + m" by simp
  have g: "devnet_group (31 * 64 + m) = 4"
    using assms by (simp add: devnet_group_def in_range_def)
  have r: "(31 * 64 + m) mod 64 = m" using assms by (intro split_mod) simp_all
  show ?thesis unfolding c devnet_addr_arith g Let_def r by simp
qed


lemma mod_bounds_64:
  "0 \<le> ((x::int) div 64) mod 16" "(x div 64) mod 16 < 64"
  "0 \<le> (x div 64) mod 8" "(x div 64) mod 8 < 64"
  "0 \<le> x mod 8" "x mod 8 < 64"
  "0 \<le> (x div 8) mod 64" "(x div 8) mod 64 < 64"
  "0 \<le> x mod 64" "x mod 64 < 64"
proof -
  show "(x div 64) mod 16 < 64" by (rule order_less_trans [of _ 16]) simp_all
  show "(x div 64) mod 8 < 64" by (rule order_less_trans [of _ 8]) simp_all
  show "x mod 8 < 64" by (rule order_less_trans [of _ 8]) simp_all
qed simp_all

section \<open>Claims about the address codec\<close>

text \<open>
  C1 (as stated, refuted): the round trip does not return the original triple for
  every valid triple.  For group 4 the identifier carries no MAC, so the valid triple
  \<open>(4, 0, 1)\<close> encodes to \<open>0x7C0\<close> and decodes to \<open>(4, 0, 0)\<close>.
\<close>

theorem C1_round_trip_group4_counterexample:
  "valid_triple 4 0 1 \<and> can_addr 4 0 1 = Inr 0x7C0 \<and> devnet_addr 0x7C0 = (4, 0, 0)
     \<and> devnet_addr 0x7C0 \<noteq> (4, 0, 1)"
  by (simp add: valid_triple_def can_addr_def devnet_addr_def devnet_group_def in_range_def)

text \<open>
  C1 (amended): for every valid addressing triple \<open>(g, m, a)\<close> the encoding succeeds,
  and decoding the identifier returns the group and the message identifier unchanged;
  the MAC is returned unchanged for groups 1, 2 and 3, and is 0 for group 4, whose
  identifier does not embed a MAC.
\<close>

theorem C1_round_trip_amended:
  assumes "valid_triple g m a"
  shows "\<exists>c. can_addr g m a = Inr c \<and> devnet_addr c = (g, m, if g = 4 then 0 else a)"
proof -
  from assms consider
      (g1) "g = 1" "0 \<le> m" "m < 16" "0 \<le> a" "a < 64"
    | (g2) "g = 2" "0 \<le> m" "m < 8" "0 \<le> a" "a < 64"
    | (g3) "g = 3" "0 \<le> m" "m < 7" "0 \<le> a" "a < 64"
    | (g4) "g = 4" "0 \<le> m" "m < 48" "0 \<le> a" "a < 64"
    by (auto simp: valid_triple_def in_range_def)
  then show ?thesis
  proof cases
    case g1
    then show ?thesis
      by (simp add: can_addr_def in_range_def devnet_addr_group1)
  next
    case g2
    then show ?thesis
      by (simp add: can_addr_def in_range_def devnet_addr_group2)
  next
    case g3
    then show ?thesis
      by (simp add: can_addr_def in_range_def devnet_addr_group3)
  next
    case g4
    then show ?thesis
      by (simp add: can_addr_def in_range_def devnet_addr_group4)
  qed
qed

theorem C1_round_trip_amended_witness:
  "valid_triple 2 4 1 \<and>
   (\<exists>c. can_addr 2 4 1 = Inr c \<and> devnet_addr c = (2, 4, if (2::int) = 4 then 0 else 1))"
proof -
  have h: "valid_triple 2 4 1" by (simp add: valid_triple_def in_range_def)
  show ?thesis using h C1_round_trip_amended [OF h] by simp
qed

text \<open>
  C8 (the code departs from the claim): with group 4 the only bound \<^verbatim>\<open>can_addr\<close> checks
  on the message identifier is the generic \<open>[0, 63]\<close>, so \<open>(4, 48, 0)\<close> is accepted and
  yields \<open>0x7F0\<close>, an identifier of the range the code itself declares invalid
  (\<^verbatim>\<open>CAN_ID.INVALID\<close>) and that \<^verbatim>\<open>devnet_addr\<close> does not attribute to any group.
\<close>

theorem C8_can_addr_group4_accepts_48:
  "can_addr 4 48 0 = Inr 0x7F0 \<and> can_addr 4 63 0 = Inr 0x7FF \<and> devnet_group 0x7F0 = 0"
  by (simp add: can_addr_def devnet_group_def in_range_def)

text \<open>
  C10: \<^verbatim>\<open>devnet_addr\<close> returns a triple for every 11-bit identifier and raises nothing
  (the source has no raising statement, and the model is a total function): the group
  is between 0 and 4, message identifier and MAC are between 0 and 63, the group is 0
  exactly on the reserved range, and there the result is the triple \<open>(0, 0, 0)\<close>.
\<close>

theorem C10_devnet_addr_total:
  assumes "0 \<le> c" "c \<le> 0x7FF"
  shows "\<exists>g m a. devnet_addr c = (g, m, a) \<and> 0 \<le> g \<and> g \<le> 4
            \<and> 0 \<le> m \<and> m < 64 \<and> 0 \<le> a \<and> a < 64
            \<and> (g = 0 \<longleftrightarrow> 0x7F0 \<le> c)
            \<and> (0x7F0 \<le> c \<longrightarrow> (g, m, a) = (0, 0, 0))"
proof -
  consider (g1) "c < 0x400" | (g2) "0x400 \<le> c" "c < 0x600"
    | (g3) "0x600 \<le> c" "c < 0x7C0" | (g4) "0x7C0 \<le> c" "c < 0x7F0"
    | (g0) "0x7F0 \<le> c"
    by linarith
  then show ?thesis
  proof cases
    case g1
    with assms have g: "devnet_group c = 1" by (simp add: devnet_group_def in_range_def)
    from g1 have n: "\<not> 0x7F0 \<le> c" by simp
    show ?thesis unfolding devnet_addr_arith Let_def g by (simp add: mod_bounds_64 n)
  next
    case g2
    then have g: "devnet_group c = 2" by (simp add: devnet_group_def in_range_def)
    from g2 have n: "\<not> 0x7F0 \<le> c" by simp
    show ?thesis unfolding devnet_addr_arith Let_def g by (simp add: mod_bounds_64 n)
  next
    case g3
    then have g: "devnet_group c = 3" by (simp add: devnet_group_def in_range_def)
    from g3 have n: "\<not> 0x7F0 \<le> c" by simp
    show ?thesis unfolding devnet_addr_arith Let_def g by (simp add: mod_bounds_64 n)
  next
    case g4
    then have g: "devnet_group c = 4" by (simp add: devnet_group_def in_range_def)
    from g4 have n: "\<not> 0x7F0 \<le> c" by simp
    show ?thesis unfolding devnet_addr_arith Let_def g by (simp add: mod_bounds_64 n)
  next
    case g0
    then have g: "devnet_group c = 0" by (simp add: devnet_group_def in_range_def)
    show ?thesis unfolding devnet_addr_arith Let_def g using g0 by simp
  qed
qed

theorem C10_devnet_addr_total_witness:
  "(0::int) \<le> 0x7F5 \<and> (0x7F5::int) \<le> 0x7FF \<and> devnet_addr 0x7F5 = (0, 0, 0)"
proof -
  have h: "(0::int) \<le> 0x7F5" "(0x7F5::int) \<le> 0x7FF" by simp_all
  show ?thesis using C10_devnet_addr_total [OF h] by auto
qed

section \<open>CAN header of a built packet\<close>

lemma build_can_header_mac:
  "mac_in_can_id (build_can_header p) =
     (if group_id p = 1 \<or> group_id p = 3 then src_mac p
      else if group_id p = 2 then
        (if message_id p \<in> {BITSTROBE_REQ, EXPLICIT_RSP, UNCONNECTED_RSP} then src_mac p else dst_mac p)
      else mac_in_can_id p)"
  by (simp add: build_can_header_def Let_def)

lemma build_can_header_id:
  "can_header (build_can_header p) =
     (if group_id p = 1 then push_bit 6 (message_id p) + src_mac p
      else if group_id p = 2 then 0x400 + push_bit 3 (mac_in_can_id (build_can_header p)) + message_id p
      else if group_id p = 3 then 0x600 + push_bit 6 (message_id p) + src_mac p
      else if group_id p = 4 then 0x7C0 + message_id p
      else can_header p)"
  by (simp add: build_can_header_def Let_def)

text \<open>
  C7: \<^verbatim>\<open>build_can_header\<close> embeds, for a group-2 packet, the source MAC when the
  message identifier is one of \<^verbatim>\<open>BITSTROBE_CMD = 0\<close>, \<^verbatim>\<open>EXPLICIT_RSP = 3\<close>,
  \<^verbatim>\<open>UNCONNECTED_RSP = 3\<close>, and the destination MAC otherwise (so, when the two MACs
  differ, the embedded MAC is the source MAC if and only if the message identifier is
  in that set); for groups 1 and 3 it always embeds the source MAC.  The MAC sits at
  the position from which \<^verbatim>\<open>devnet_addr\<close> reads it back.
\<close>

theorem C7_group2_mac_placement:
  fixes p :: packet
  defines "q \<equiv> build_can_header p"
  shows "(group_id p = 2 \<longrightarrow>
            mac_in_can_id q =
              (if message_id p \<in> {BITSTROBE_REQ, EXPLICIT_RSP, UNCONNECTED_RSP}
               then src_mac p else dst_mac p)
          \<and> can_header q = 0x400 + push_bit 3 (mac_in_can_id q) + message_id p
          \<and> (src_mac p \<noteq> dst_mac p \<longrightarrow>
               (mac_in_can_id q = src_mac p \<longleftrightarrow>
                  message_id p \<in> {BITSTROBE_REQ, EXPLICIT_RSP, UNCONNECTED_RSP}))
          \<and> (in_range 0 8 (message_id p) \<and> in_range 0 64 (mac_in_can_id q) \<longrightarrow>
               devnet_addr (can_header q) = (2, message_id p, mac_in_can_id q)))
       \<and> (group_id p = 1 \<longrightarrow>
            mac_in_can_id q = src_mac p
          \<and> can_header q = push_bit 6 (message_id p) + src_mac p
          \<and> (in_range 0 16 (message_id p) \<and> in_range 0 64 (src_mac p) \<longrightarrow>
               devnet_addr (can_header q) = (1, message_id p, src_mac p)))
       \<and> (group_id p = 3 \<longrightarrow>
            mac_in_can_id q = src_mac p
          \<and> can_header q = 0x600 + push_bit 6 (message_id p) + src_mac p
          \<and> (in_range 0 7 (message_id p) \<and> in_range 0 64 (src_mac p) \<longrightarrow>
               devnet_addr (can_header q) = (3, message_id p, src_mac p)))"
proof (intro conjI impI)
  assume g: "group_id p = 2"
  show m: "mac_in_can_id q =
              (if message_id p \<in> {BITSTROBE_REQ, EXPLICIT_RSP, UNCONNECTED_RSP}
               then src_mac p else dst_mac p)"
    unfolding q_def build_can_header_mac using g by simp
  show h: "can_header q = 0x400 + push_bit 3 (mac_in_can_id q) + message_id p"
    unfolding q_def build_can_header_id using g by simp
  { assume "src_mac p \<noteq> dst_mac p"
    then show "mac_in_can_id q = src_mac p \<longleftrightarrow>
                  message_id p \<in> {BITSTROBE_REQ, EXPLICIT_RSP, UNCONNECTED_RSP}"
      unfolding m by auto }
  { assume "in_range 0 8 (message_id p) \<and> in_range 0 64 (mac_in_can_id q)"
    then show "devnet_addr (can_header q) = (2, message_id p, mac_in_can_id q)"
      unfolding h in_range_def by (intro devnet_addr_group2) simp_all }
next
  assume g: "group_id p = 1"
  show "mac_in_can_id q = src_mac p"
    unfolding q_def build_can_header_mac using g by simp
  show h: "can_header q = push_bit 6 (message_id p) + src_mac p"
    unfolding q_def build_can_header_id using g by simp
  { assume "in_range 0 16 (message_id p) \<and> in_range 0 64 (src_mac p)"
    then show "devnet_addr (can_header q) = (1, message_id p, src_mac p)"
      unfolding h in_range_def by (intro devnet_addr_group1) simp_all }
next
  assume g: "group_id p = 3"
  show "mac_in_can_id q = src_mac p"
    unfolding q_def build_can_header_mac using g by simp
  show h: "can_header q = 0x600 + push_bit 6 (message_id p) + src_mac p"
    unfolding q_def build_can_header_id using g by simp
  { assume "in_range 0 7 (message_id p) \<and> in_range 0 64 (src_mac p)"
    then show "devnet_addr (can_header q) = (3, message_id p, src_mac p)"
      unfolding h in_range_def by (intro devnet_addr_group3) simp_all }
qed

theorem C7_group2_mac_placement_witness:
  "group_id (DeviceNetPacket 2 4 0 1 []) = 2
   \<and> src_mac (DeviceNetPacket 2 4 0 1 []) \<noteq> dst_mac (DeviceNetPacket 2 4 0 1 [])
   \<and> in_range 0 8 (message_id (DeviceNetPacket 2 4 0 1 []))
   \<and> mac_in_can_id (build_can_header (DeviceNetPacket 2 4 0 1 [])) = 1
   \<and> can_header (build_can_header (DeviceNetPacket 2 4 0 1 [])) = 0x40C
   \<and> devnet_addr (can_header (build_can_header (DeviceNetPacket 2 4 0 1 []))) = (2, 4, 1)
   \<and> group_id (DeviceNetPacket 2 3 1 0 []) = 2
   \<and> mac_in_can_id (build_can_header (DeviceNetPacket 2 3 1 0 [])) = 1
   \<and> can_header (build_can_header (DeviceNetPacket 2 3 1 0 [])) = 0x40B
   \<and> group_id (DeviceNetPacket 1 15 5 0 []) = 1
   \<and> devnet_addr (can_header (build_can_header (DeviceNetPacket 1 15 5 0 []))) = (1, 15, 5)
   \<and> group_id (DeviceNetPacket 3 6 7 0 []) = 3
   \<and> devnet_addr (can_header (build_can_header (DeviceNetPacket 3 6 7 0 []))) = (3, 6, 7)"
  using C7_group2_mac_placement [of "DeviceNetPacket 2 4 0 1 []"]
    C7_group2_mac_placement [of "DeviceNetPacket 2 3 1 0 []"]
    C7_group2_mac_placement [of "DeviceNetPacket 1 15 5 0 []"]
    C7_group2_mac_placement [of "DeviceNetPacket 3 6 7 0 []"]
  by (simp add: DeviceNetPacket_def build_can_header_def Let_def in_range_def const_defs)

section \<open>Splitting a payload into fragments\<close>




























section \<open>Reassembly of inbound fragments\<close>







section \<open>Waiting for a fragment acknowledge\<close>

lemma explicit_frag_from_frame_ack_status:
  "explicit_frag_from_frame p frame = Inr r \<Longrightarrow> ack_status r = ack_status p"
  by (auto simp: explicit_frag_from_frame_def parse_can_header_def parse_can_data_def
      parse_message_header_def get_frag_header_def explicit_parse_message_body_def
      set_explicit_data_def any_error_is_parsing_error_def index_error_is_parsing_error_def
      index_def ebind_def Let_def
      split: if_splits sum.splits prod.splits error.splits)

lemma ack_from_frame_status_zero:
  "ack_from_frame ExplicitFragAckPacket_default frame = Inr r \<Longrightarrow> ack_status r = 0"
proof -
  assume a: "ack_from_frame ExplicitFragAckPacket_default frame = Inr r"
  then obtain r' where r': "explicit_frag_from_frame ExplicitFragAckPacket_default frame = Inr r'"
    and v: "ack_validate r' = Inr r"
    by (auto simp: ack_from_frame_def ebind_def split: sum.splits)
  from v have "r = r'" by (auto simp: ack_validate_def split: if_splits)
  with explicit_frag_from_frame_ack_status [OF r'] show ?thesis
    by (simp add: ExplicitFragAckPacket_default_def ExplicitFragAckPacket_def)
qed

lemma explicit_frag_from_frame_error:
  "explicit_frag_from_frame p frame = Inl e \<Longrightarrow> e = DevNetParsingError"
  by (auto simp: explicit_frag_from_frame_def parse_can_header_def parse_can_data_def
      parse_message_header_def get_frag_header_def explicit_parse_message_body_def
      set_explicit_data_def any_error_is_parsing_error_def index_error_is_parsing_error_def
      index_def ebind_def Let_def
      split: if_splits sum.splits prod.splits error.splits)

lemma ack_from_frame_error:
  "ack_from_frame p frame = Inl e \<Longrightarrow> e = DevNetParsingError"
  by (auto simp: ack_from_frame_def ack_validate_def ebind_def
      dest: explicit_frag_from_frame_error split: sum.splits if_splits)

lemma wait_fragment_ack_never_fragment_error:
  "fst (wait_fragment_ack rx) \<noteq> Inl CipFragmentResponseError"
proof -
  have "fst (wait_fragment_ack_loop n rx) \<noteq> Inl CipFragmentResponseError" for n
  proof (induction n rx rule: wait_fragment_ack_loop.induct)
    case (4 n msg_in rx)
    show ?case
      by (auto simp: ack_from_frame_status_zero dest: ack_from_frame_error split: sum.splits)
  qed simp_all
  then show ?thesis by (simp add: wait_fragment_ack_def)
qed

lemma wait_fragment_ack_no_response:
  "wait_fragment_ack [] = (Inl CipNoResponseError, [])"
  "wait_fragment_ack [None] = (Inl CipNoResponseError, [])"
  "wait_fragment_ack (None # None # rx) = (Inl CipNoResponseError, rx)"
  by (simp_all add: wait_fragment_ack_def numeral_2_eq_2)

text \<open>
  C6 (the code departs from the claim): \<^verbatim>\<open>wait_fragment_ack\<close> makes up to two receive
  attempts and raises \<^verbatim>\<open>CipNoResponseError\<close> when both time out
  (\<open>wait_fragment_ack_no_response\<close>), but a fragment acknowledge with a non-zero
  status does not fail: \<^verbatim>\<open>ExplicitFragAckPacket.from_frame\<close> never stores the status
  byte of the frame in \<^verbatim>\<open>ack_status\<close>, so the value read is always the 0 of the
  constructor (\<open>ack_from_frame_status_zero\<close>) and \<^verbatim>\<open>CipFragmentResponseError\<close> is never
  raised (\<open>wait_fragment_ack_never_fragment_error\<close>).  The acknowledge with status 1
  ("too much data") below is accepted.
\<close>

theorem C6_nonzero_ack_status_accepted:
  "wait_fragment_ack [Some \<lparr>can_id = 0x40B, frame_data = [0x80, 0xC0, 0x01]\<rparr>] = (Inr (), [])"
  by (simp add: wait_fragment_ack_def numeral_2_eq_2 ack_from_frame_def ack_validate_def
      explicit_frag_from_frame_def parse_can_header_def parse_can_data_def
      parse_message_header_def get_frag_header_def explicit_parse_message_body_def
      set_explicit_data_def any_error_is_parsing_error_def index_error_is_parsing_error_def
      index_def slice_def ebind_def Let_def get_frag_type_def get_frag_count_def
      ExplicitFragAckPacket_default_def ExplicitFragAckPacket_def ExplicitFragPacket_def
      DeviceNetPacket_def devnet_addr_def devnet_group_def in_range_def const_defs)


section \<open>Waiting for the response\<close>

lemmas parse_defs = service_from_frame_def devicenet_from_frame_def get_src_mac_def
  get_dst_mac_def get_group_id_def get_message_id_def parse_message_header_def
  service_parse_message_body_def get_frag_header_def set_rr_flag_def set_service_code_def
  set_class_id_def set_instance_id_def set_explicit_data_def
  any_error_is_parsing_error_def index_error_is_parsing_error_def index_def slice_def
  ebind_def Let_def get_frag_type_def get_frag_count_def
  ExplicitServicePacket_default_def ExplicitServicePacket_def DeviceNetPacket_def
  devnet_addr_def devnet_group_def in_range_def const_defs

lemmas link_defs = is_fragmented_def is_one_fragment_def is_start_fragment_def
  is_final_fragment_def is_bad_service_def is_error_def raise_CipServiceError_def

lemma service_parse_message_body_code:
  "service_parse_message_body p frame offset = Inr r \<Longrightarrow>
     0 \<le> service_code r \<and> service_code r \<le> 0x7F"
  by (auto simp: service_parse_message_body_def set_rr_flag_def set_service_code_def
      set_class_id_def set_instance_id_def index_error_is_parsing_error_def ebind_def Let_def
      split: if_splits sum.splits error.splits)

lemma service_from_frame_code:
  "service_from_frame p frame = Inr r \<Longrightarrow> 0 \<le> service_code r \<and> service_code r \<le> 0x7F"
  by (auto simp: service_from_frame_def ebind_def
      dest: service_parse_message_body_code split: if_splits sum.splits)

lemma wait_response_bad_service:
  assumes "service_from_frame ExplicitServicePacket_default msg_in = Inr response"
    and "code > 0x7F" and "service_code response \<noteq> SERVICE_ERROR"
  shows "wait_response src_addr dst_addr code (Some msg_in # rx) tx
           = (Inl (CipServiceError INVALID_REPLY_RECEIVED), rx, tx)"
  using assms service_from_frame_code [OF assms(1)]
  by (simp add: link_defs const_defs)

lemma wait_response_error_reply:
  assumes "service_from_frame ExplicitServicePacket_default msg_in = Inr response"
    and "service_code response = SERVICE_ERROR" and "code \<noteq> SERVICE_ERROR"
    and "service_data response = err # more_data" and "0 \<le> err" and "err \<le> 0x2E"
  shows "wait_response src_addr dst_addr code (Some msg_in # rx) tx
           = (Inl (CipServiceError err), rx, tx)"
  using assms by (simp add: link_defs const_defs index_def)


text \<open>
  C4 (the code departs from the claim): a request whose service code exceeds \<open>0x7F\<close>
  fails with \<^verbatim>\<open>CipServiceError(0x22)\<close> (\<open>wait_response_bad_service\<close>), and an error
  response fails with \<^verbatim>\<open>CipServiceError\<close> of its first data byte when that byte is a
  key of \<^verbatim>\<open>ERROR.TAG\<close> (\<open>wait_response_error_reply\<close>).  But the constructor of
  \<^verbatim>\<open>CipServiceError\<close> looks the code up in \<^verbatim>\<open>ERROR.TAG\<close>, which ends at \<open>0x2E\<close>: for
  the error response with the object-specific status \<open>0xD0\<close> the operation fails with
  \<^verbatim>\<open>KeyError\<close>, not with \<^verbatim>\<open>CipServiceError(0xD0)\<close>; and an error response without a
  data byte fails with \<^verbatim>\<open>IndexError\<close>.
\<close>

theorem C4_error_reply_unknown_code:
  "wait_response 0 1 0x0E [Some \<lparr>can_id = 0x40B, frame_data = [0x00, 0x94, 0xD0, 0x01]\<rparr>] []
     = (Inl KeyError, [], [])
   \<and> wait_response 0 1 0x0E [Some \<lparr>can_id = 0x40B, frame_data = [0x00, 0x94]\<rparr>] []
     = (Inl IndexError, [], [])"
  by (simp add: parse_defs link_defs)




section \<open>String codec\<close>

lemma decode_encode_char:
  assumes "utf8_encode_char c = Inr e"
  shows "utf8_decode (e @ rest) = ebind (utf8_decode rest) (\<lambda>cs. Inr (c # cs))"
proof -
  consider (a) "c < 0x80" | (b) "0x80 \<le> c" "c < 0x800"
    | (c) "0x800 \<le> c" "c < 0x10000" "\<not> (0xD800 \<le> c \<and> c \<le> 0xDFFF)"
    | (d) "0x10000 \<le> c" "c < 0x110000"
    using assms by (auto simp: utf8_encode_char_def split: if_splits)
  then show ?thesis
  proof cases
    case a
    then have e: "e = [c]" using assms by (simp add: utf8_encode_char_def)
    show ?thesis using a unfolding e by simp
  next
    case b
    then have e: "e = [0xC0 + c div 64, 0x80 + c mod 64]"
      using assms by (simp add: utf8_encode_char_def)
    have q: "c div 64 < 32" using b by simp
    have r: "c mod 64 < 64" by simp
    have s: "(c div 64) * 64 + c mod 64 = c" by simp
    show ?thesis
      using b q r unfolding e by (simp add: is_continuation_def s)
  next
    case c
    then have e: "e = [0xE0 + c div 4096, 0x80 + (c div 64) mod 64, 0x80 + c mod 64]"
      using assms by (auto simp: utf8_encode_char_def split: if_splits)
    have q: "c div 4096 < 16" using c by simp
    have r: "(c div 64) mod 64 < 64" "c mod 64 < 64" by simp_all
    have "(c div 64) div 64 = c div 4096" by (simp add: div_mult2_eq)
    then have "((c div 4096) * 64 + (c div 64) mod 64) = c div 64"
      by (metis div_mult_mod_eq)
    then have "((c div 4096) * 64 + (c div 64) mod 64) * 64 + c mod 64 = c" by simp
    then have s: "(c div 4096) * 4096 + ((c div 64) mod 64) * 64 + c mod 64 = c"
      by (simp add: algebra_simps)
    show ?thesis
      using c q r unfolding e by (simp add: is_continuation_def s)
  next
    case d
    then have e: "e = [0xF0 + c div 262144, 0x80 + (c div 4096) mod 64,
                       0x80 + (c div 64) mod 64, 0x80 + c mod 64]"
      using assms by (simp add: utf8_encode_char_def)
    have q: "c div 262144 < 8" using d by simp
    have r: "(c div 4096) mod 64 < 64" "(c div 64) mod 64 < 64" "c mod 64 < 64" by simp_all
    have "(c div 64) div 64 = c div 4096" "(c div 4096) div 64 = c div 262144"
      by (simp_all add: div_mult2_eq)
    then have "((c div 262144) * 64 + (c div 4096) mod 64) = c div 4096"
      "((c div 4096) * 64 + (c div 64) mod 64) = c div 64"
      by (metis div_mult_mod_eq)+
    then have "(((c div 262144) * 64 + (c div 4096) mod 64) * 64 + (c div 64) mod 64) * 64
                 + c mod 64 = c" by simp
    then have s: "(c div 262144) * 262144 + ((c div 4096) mod 64) * 4096
                    + ((c div 64) mod 64) * 64 + c mod 64 = c"
      by (simp add: algebra_simps)
    show ?thesis
      using d q r unfolding e by (simp add: is_continuation_def s)
  qed
qed


lemma decode_encode:
  "utf8_encode s = Inr bs \<Longrightarrow> utf8_decode bs = Inr s"
proof (induction s arbitrary: bs)
  case Nil
  then show ?case by simp
next
  case (Cons c cs)
  from Cons.prems obtain e rest where e: "utf8_encode_char c = Inr e"
    and rest: "utf8_encode cs = Inr rest" and bs: "bs = e @ rest"
    by (auto simp: ebind_def split: sum.splits)
  show ?case
    unfolding bs decode_encode_char [OF e] Cons.IH [OF rest] by (simp add: ebind_def)
qed

lemma encode_char_bytes: "utf8_encode_char c = Inr e \<Longrightarrow> \<forall>b \<in> set e. b < 256"
proof -
  assume enc: "utf8_encode_char c = Inr e"
  have m: "x mod 64 < 64" for x :: nat by simp
  have r: "0x80 + x mod 64 < 256" for x :: nat using m [of x] by linarith
  consider (a) "c < 0x80" | (b) "0x80 \<le> c" "c < 0x800"
    | (c) "0x800 \<le> c" "c < 0x10000" "\<not> (0xD800 \<le> c \<and> c \<le> 0xDFFF)"
    | (d) "0x10000 \<le> c" "c < 0x110000"
    using enc by (auto simp: utf8_encode_char_def split: if_splits)
  then show ?thesis
  proof cases
    case a
    with enc show ?thesis by (auto simp: utf8_encode_char_def)
  next
    case b
    then have e: "e = [0xC0 + c div 64, 0x80 + c mod 64]"
      using enc by (auto simp: utf8_encode_char_def split: if_splits)
    have q: "c div 64 < 32" using b by simp
    show ?thesis unfolding e using q r by simp
  next
    case c
    then have e: "e = [0xE0 + c div 4096, 0x80 + (c div 64) mod 64, 0x80 + c mod 64]"
      using enc by (auto simp: utf8_encode_char_def split: if_splits)
    have q: "c div 4096 < 16" using c by simp
    show ?thesis unfolding e using q r by simp
  next
    case d
    then have e: "e = [0xF0 + c div 262144, 0x80 + (c div 4096) mod 64,
                       0x80 + (c div 64) mod 64, 0x80 + c mod 64]"
      using enc by (auto simp: utf8_encode_char_def split: if_splits)
    have q: "c div 262144 < 8" using d by simp
    show ?thesis unfolding e using q r by simp
  qed
qed

lemma encode_bytes: "utf8_encode s = Inr bs \<Longrightarrow> \<forall>b \<in> set bs. b < 256"
proof (induction s arbitrary: bs)
  case Nil
  then show ?case by simp
next
  case (Cons c cs)
  from Cons.prems obtain e rest where e: "utf8_encode_char c = Inr e"
    and rest: "utf8_encode cs = Inr rest" and bs: "bs = e @ rest"
    by (auto simp: ebind_def split: sum.splits)
  show ?case
    unfolding bs using encode_char_bytes [OF e] Cons.IH [OF rest] by auto
qed

lemma roundtrip_short:
  assumes "utf8_encode s = Inr bs" "length bs \<le> 254"
  shows "string_to_bytes s = Inr (length bs # bs)"
    and "ebind (string_to_bytes s) bytes_to_string = Inr (rstrip_nul s)"
proof -
  show s: "string_to_bytes s = Inr (length bs # bs)"
    using assms by (simp add: string_to_bytes_def ebind_def Let_def)
  have b: "bytearray bs = Inr bs" using encode_bytes [OF assms(1)] by (simp add: bytearray_def)
  show "ebind (string_to_bytes s) bytes_to_string = Inr (rstrip_nul s)"
    unfolding s by (simp add: ebind_def bytes_to_string_def b decode_encode [OF assms(1)])
qed

lemma truncation:
  assumes "utf8_encode s = Inr bs" "length bs > 254"
  shows "string_to_bytes s = Inr (length bs # take 254 bs)"
  using assms by (simp add: string_to_bytes_def ebind_def Let_def numeral_eq_Suc)

lemma encode_ascii: "\<forall>c \<in> set s. c < 0x80 \<Longrightarrow> utf8_encode s = Inr s"
  by (induction s) (simp_all add: utf8_encode_char_def ebind_def)

lemma decode_ascii: "\<forall>c \<in> set s. c < 0x80 \<Longrightarrow> utf8_decode s = Inr s"
  by (induction s) (simp_all add: ebind_def)

lemma dropWhile_nul_replicate:
  "c \<noteq> 0 \<Longrightarrow> dropWhile (\<lambda>x. x = 0) (replicate n c) = replicate n (c::nat)"
  by (cases n) simp_all

lemma rstrip_nul_replicate: "c \<noteq> 0 \<Longrightarrow> rstrip_nul (replicate n c) = replicate n c"
proof -
  assume c: "c \<noteq> 0"
  show ?thesis
    unfolding rstrip_nul_def rev_replicate dropWhile_nul_replicate [OF c] ..
qed

text \<open>
  C9 (as stated, refuted): decoding is not the inverse of encoding for every encodable
  string.  The string of 255 letters \<open>a\<close> is encoded to the prefix 255 and the first
  254 letters, which decode to a string of 254 letters.
\<close>

theorem C9_long_string_counterexample:
  "ebind (string_to_bytes (replicate 255 97)) bytes_to_string = Inr (replicate 254 97)
   \<and> replicate 254 97 \<noteq> rstrip_nul (replicate 255 (97::nat))"
proof -
  have e: "utf8_encode (replicate 255 97) = Inr (replicate 255 97)"
    by (rule encode_ascii) simp
  have s: "string_to_bytes (replicate 255 97) = Inr (255 # replicate 254 97)"
    using truncation [OF e] by simp
  have b: "bytearray (replicate 254 97) = Inr (replicate 254 97)"
    by (simp add: bytearray_def)
  have d: "utf8_decode (replicate 254 97) = Inr (replicate 254 97)"
    by (rule decode_ascii) simp
  have "length (replicate 254 (97::nat)) \<noteq> length (replicate 255 (97::nat))" by simp
  then have n: "replicate 254 97 \<noteq> replicate 255 (97::nat)" by metis
  show ?thesis
    unfolding s by (simp add: ebind_def bytes_to_string_def b d rstrip_nul_replicate n)
qed


text \<open>
  C9 (amended): \<^verbatim>\<open>string_to_bytes("Test")\<close> returns \<open>[4, 84, 101, 115, 116]\<close>; for
  every encodable string whose UTF-8 encoding has at most 254 bytes the output is the
  length followed by the encoding, and \<^verbatim>\<open>bytes_to_string\<close> of it returns the string
  with trailing NUL characters stripped; for every encodable string whose UTF-8
  encoding is longer than 254 bytes the output is cut to 255 elements, the prefix
  element followed by the first 254 bytes of the encoding.
\<close>

theorem C9_string_codec:
  "string_to_bytes (map of_char ''Test'') = Inr [4, 84, 101, 115, 116]
   \<and> (utf8_encode s = Inr bs \<and> length bs \<le> 254 \<longrightarrow>
         string_to_bytes s = Inr (length bs # bs)
       \<and> ebind (string_to_bytes s) bytes_to_string = Inr (rstrip_nul s))
   \<and> (utf8_encode s = Inr bs \<and> length bs > 254 \<longrightarrow>
         (\<exists>out. string_to_bytes s = Inr out \<and> length out = 255 \<and> tl out = take 254 bs))"
proof (intro conjI impI)
  show "string_to_bytes (map of_char ''Test'') = Inr [4, 84, 101, 115, 116]"
    by (simp add: string_to_bytes_def utf8_encode_char_def ebind_def)
next
  assume h: "utf8_encode s = Inr bs \<and> length bs \<le> 254"
  then show "string_to_bytes s = Inr (length bs # bs)"
    by (intro roundtrip_short(1)) simp_all
  from h show "ebind (string_to_bytes s) bytes_to_string = Inr (rstrip_nul s)"
    by (intro roundtrip_short(2) [of s bs]) simp_all
next
  assume h: "utf8_encode s = Inr bs \<and> length bs > 254"
  then have "string_to_bytes s = Inr (length bs # take 254 bs)"
    by (intro truncation) simp_all
  moreover have "length (length bs # take 254 bs) = 255" using h by simp
  ultimately show "\<exists>out. string_to_bytes s = Inr out \<and> length out = 255
                      \<and> tl out = take 254 bs"
    by simp
qed

theorem C9_string_codec_witness:
  "utf8_encode [0x54, 0xE9, 0x20AC, 0x1F600, 0]
     = Inr [0x54, 0xC3, 0xA9, 0xE2, 0x82, 0xAC, 0xF0, 0x9F, 0x98, 0x80, 0]
   \<and> length [0x54, 0xC3, 0xA9, 0xE2, 0x82, 0xAC, 0xF0, 0x9F, 0x98, 0x80, 0::nat] \<le> 254
   \<and> string_to_bytes [0x54, 0xE9, 0x20AC, 0x1F600, 0]
     = Inr [11, 0x54, 0xC3, 0xA9, 0xE2, 0x82, 0xAC, 0xF0, 0x9F, 0x98, 0x80, 0]
   \<and> ebind (string_to_bytes [0x54, 0xE9, 0x20AC, 0x1F600, 0]) bytes_to_string
     = Inr [0x54, 0xE9, 0x20AC, 0x1F600]
   \<and> utf8_encode (replicate 300 97) = Inr (replicate 300 97)
   \<and> length (replicate 300 (97::nat)) > 254
   \<and> (\<exists>out. string_to_bytes (replicate 300 97) = Inr out \<and> length out = 255
          \<and> tl out = replicate 254 97)"
proof -
  have e: "utf8_encode [0x54, 0xE9, 0x20AC, 0x1F600, 0]
     = Inr [0x54, 0xC3, 0xA9, 0xE2, 0x82, 0xAC, 0xF0, 0x9F, 0x98, 0x80, 0]"
    by (simp add: utf8_encode_char_def ebind_def)
  have l: "length [0x54, 0xC3, 0xA9, 0xE2, 0x82, 0xAC, 0xF0, 0x9F, 0x98, 0x80, 0::nat] \<le> 254"
    by simp
  have r: "rstrip_nul [0x54, 0xE9, 0x20AC, 0x1F600, 0] = [0x54, 0xE9, 0x20AC, 0x1F600]"
    by (simp add: rstrip_nul_def)
  have e': "utf8_encode (replicate 300 97) = Inr (replicate 300 97)"
    by (rule encode_ascii) simp
  have l': "length (replicate 300 (97::nat)) > 254" by simp
  have t: "take 254 (replicate 300 (97::nat)) = replicate 254 97" by simp
  have n: "length [0x54, 0xC3, 0xA9, 0xE2, 0x82, 0xAC, 0xF0, 0x9F, 0x98, 0x80, 0::nat] = 11"
    by simp
  note short = C9_string_codec [of "[0x54, 0xE9, 0x20AC, 0x1F600, 0]"
      "[0x54, 0xC3, 0xA9, 0xE2, 0x82, 0xAC, 0xF0, 0x9F, 0x98, 0x80, 0]",
      THEN conjunct2, THEN conjunct1, rule_format, OF conjI, OF e l]
  have a: "string_to_bytes [0x54, 0xE9, 0x20AC, 0x1F600, 0]
       = Inr [11, 0x54, 0xC3, 0xA9, 0xE2, 0x82, 0xAC, 0xF0, 0x9F, 0x98, 0x80, 0]"
    "ebind (string_to_bytes [0x54, 0xE9, 0x20AC, 0x1F600, 0]) bytes_to_string
       = Inr [0x54, 0xE9, 0x20AC, 0x1F600]"
    using short unfolding r n by blast+
  note long = C9_string_codec [of "replicate 300 97" "replicate 300 97",
      THEN conjunct2, THEN conjunct2, rule_format, OF conjI, OF e' l']
  have b: "\<exists>out. string_to_bytes (replicate 300 97) = Inr out \<and> length out = 255
          \<and> tl out = replicate 254 97"
    using long unfolding t by blast
  from e l a e' l' b show ?thesis by blast
qed

end
